theory Spec2Isabelle
  imports Main
begin

section \<open>JavaScript values, errors and effects\<close>

text \<open>
  The lessons and the demo component pass around plain JavaScript values: action
  descriptors such as \<^verbatim>\<open>{ type: "count/increment" }\<close>, the store state
  \<^verbatim>\<open>{ items: [...] }\<close>, and argument lists. Objects are association lists of
  fields (the first binding of a key is the one read). Numbers are restricted to the
  integers, which is all the lessons use.
\<close>

datatype jsval =
    JUndefined
  | JNull
  | JBool bool
  | JNum int
  | JStr string
  | JArr "jsval list"
  | JObj "(string \<times> jsval) list"

text \<open>
  A JavaScript \<^verbatim>\<open>throw\<close> carries any value; \<open>TypeError\<close> is the error the
  engine itself raises when a property of \<^verbatim>\<open>undefined\<close> or \<^verbatim>\<open>null\<close> is read.
\<close>

datatype error = TypeError | Thrown jsval

text \<open>
  A computation runs in a world \<open>'w\<close> (the store and everything else that can be
  mutated), returns a value or raises, and leaves a new world behind. A JavaScript function
  receives its \<^verbatim>\<open>arguments\<close> as a list: there is no arity check, a missing
  argument reads as \<^verbatim>\<open>undefined\<close> and a surplus one is ignored by the callee.
\<close>

type_synonym ('w, 'a) js = "'w \<Rightarrow> (error + 'a) \<times> 'w"

type_synonym 'w jsfun = "jsval list \<Rightarrow> ('w, jsval) js"

definition js_return :: "'a \<Rightarrow> ('w, 'a) js" where
  "js_return v w = (Inr v, w)"

text \<open>Sequencing: an exception of the first computation skips the second.\<close>

definition js_bind :: "('w, 'a) js \<Rightarrow> ('a \<Rightarrow> ('w, 'b) js) \<Rightarrow> ('w, 'b) js" where
  "js_bind m f w = (case m w of (Inl e, w') \<Rightarrow> (Inl e, w') | (Inr v, w') \<Rightarrow> f v w')"

text \<open>The \<open>i\<close>-th actual argument of a call, \<^verbatim>\<open>undefined\<close> when it was not passed.\<close>

definition arg :: "nat \<Rightarrow> jsval list \<Rightarrow> jsval" where
  "arg i args = (if i < length args then args ! i else JUndefined)"

section \<open>The state selector\<close>

text \<open>
  Reading \<^verbatim>\<open>state.items\<close>: a \<^verbatim>\<open>TypeError\<close> on \<^verbatim>\<open>undefined\<close> and
  \<^verbatim>\<open>null\<close>, the field's value on an object that has the field, and
  \<^verbatim>\<open>undefined\<close> on every other value (no primitive wrapper and no array has a
  property called \<^verbatim>\<open>items\<close>).
\<close>

fun read_items :: "jsval \<Rightarrow> error + jsval" where
  "read_items JUndefined = Inl TypeError"
| "read_items JNull = Inl TypeError"
| "read_items (JObj fs) = Inr (case map_of fs ''items'' of Some v \<Rightarrow> v | None \<Rightarrow> JUndefined)"
| "read_items _ = Inr JUndefined"

text \<open>
  \<^verbatim>\<open>function mapStateToProps(state){ return {items: state.items} }\<close>
  (src/App.js, lines 23 to 25).
\<close>

definition mapStateToProps :: "jsval \<Rightarrow> error + jsval" where
  "mapStateToProps state =
     (case read_items state of Inl e \<Rightarrow> Inl e | Inr v \<Rightarrow> Inr (JObj [(''items'', v)]))"

text \<open>
  The selector handed to \<^verbatim>\<open>useSelector\<close> in the hooks variant of the component:
  \<^verbatim>\<open>(state) => state.items\<close> (src/App.js, line 38).
\<close>

definition selectItems :: "jsval \<Rightarrow> error + jsval" where
  "selectItems state = read_items state"

section \<open>Action creators\<close>

text \<open>
  \<^verbatim>\<open>function incrementCount() { return { type: "count/increment" }; }\<close>
  (the hooks lesson, \<^verbatim>\<open>counterSlice.js\<close>).
\<close>

definition incrementCount :: "'w jsfun" where
  "incrementCount args = js_return (JObj [(''type'', JStr ''count/increment'')])"

text \<open>
  Modelled from the spec: the module \<^verbatim>\<open>./actions/items\<close> that exports
  \<^verbatim>\<open>addItem\<close> is not among the sources; the specification's scenario gives it as
  \<^verbatim>\<open>addItem: () => ({ type: "ADD_ITEM" })\<close>.
\<close>

definition addItem :: "'w jsfun" where
  "addItem args = js_return (JObj [(''type'', JStr ''ADD_ITEM'')])"

text \<open>
  Modelled from the spec: the action creator of the specification's last scenario,
  \<^verbatim>\<open>setCount: (n) => ({ type: "SET_COUNT", payload: n })\<close>, which no source file
  defines.
\<close>

definition setCount :: "'w jsfun" where
  "setCount args = js_return (JObj [(''type'', JStr ''SET_COUNT''), (''payload'', arg 0 args)])"

section \<open>The bound wrapper\<close>

text \<open>
  What \<^verbatim>\<open>this.props.addItem\<close> is once \<^verbatim>\<open>bindActionCreators\<close> has run, as the
  lesson prints it:
  \<^verbatim>\<open>function () { return dispatch(actionCreator.apply(undefined, arguments)); }\<close>
  The closure's two free variables are parameters here. \<^verbatim>\<open>apply\<close> hands the whole
  argument list on and passes \<^verbatim>\<open>undefined\<close> as the receiver, so the action creator
  sees no \<^verbatim>\<open>this\<close>. \<^verbatim>\<open>dispatch\<close> is called with one argument, the value the
  action creator returned; if the action creator raises, \<^verbatim>\<open>dispatch\<close> is never
  reached.
\<close>

definition wrapper :: "'w jsfun \<Rightarrow> 'w jsfun \<Rightarrow> 'w jsfun" where
  "wrapper dispatch actionCreator arguments =
     js_bind (actionCreator arguments) (\<lambda>action. dispatch [action])"

text \<open>
  The hand-written binder of the first lesson,
  \<^verbatim>\<open>dispatch => { return { addItem: () => { dispatch(addItem()) } } }\<close>:
  its arrow function passes no argument on and, having a block body without
  \<^verbatim>\<open>return\<close>, evaluates to \<^verbatim>\<open>undefined\<close>.
\<close>

definition mapDispatchToProps_inline :: "'w jsfun \<Rightarrow> 'w jsfun \<Rightarrow> ('w, string \<rightharpoonup> 'w jsfun) js" where
  "mapDispatchToProps_inline addItem' dispatch =
     js_return [''addItem'' \<mapsto>
       (\<lambda>arguments. js_bind (js_bind (addItem' []) (\<lambda>action. dispatch [action]))
                               (\<lambda>_. js_return JUndefined))]"

text \<open>
  The intermediate attempt of the lesson, \<^verbatim>\<open>function mapDispatchToProps(){ return
  {addItem: addItem} }\<close>, hands the action creator itself to the component: calling the
  prop builds a descriptor and dispatches nothing.
\<close>

definition mapDispatchToProps_unbound :: "'w jsfun \<Rightarrow> 'w jsfun \<Rightarrow> ('w, string \<rightharpoonup> 'w jsfun) js" where
  "mapDispatchToProps_unbound addItem' dispatch = js_return [''addItem'' \<mapsto> addItem']"

text \<open>
  Modelled from the spec: \<^verbatim>\<open>bindActionCreators\<close> is imported from the redux
  library and its body is not among the sources. The specification's \<^verbatim>\<open>bind\<close>
  returns a new map with the keys of the action-creator map, each value being the wrapper
  above closed over \<^verbatim>\<open>dispatch\<close> and the action creator of that key; building the
  map has no effect on the world.
\<close>

definition bindActionCreators ::
    "(string \<rightharpoonup> 'w jsfun) \<Rightarrow> 'w jsfun \<Rightarrow> ('w, string \<rightharpoonup> 'w jsfun) js" where
  "bindActionCreators actionCreators dispatch =
     js_return (\<lambda>key. map_option (wrapper dispatch) (actionCreators key))"

text \<open>
  \<^verbatim>\<open>function mapDispatchToProps(dispatch){
    return bindActionCreators({addItem: addItem}, dispatch) }\<close>
  (src/App.js, lines 27 to 29). The imported \<^verbatim>\<open>addItem\<close> is a parameter.
\<close>

definition mapDispatchToProps :: "'w jsfun \<Rightarrow> 'w jsfun \<Rightarrow> ('w, string \<rightharpoonup> 'w jsfun) js" where
  "mapDispatchToProps addItem' dispatch =
     bindActionCreators [''addItem'' \<mapsto> addItem'] dispatch"

text \<open>
  The default the lesson quotes: \<^verbatim>\<open>dispatch => ({ dispatch })\<close>.
\<close>

definition defaultMapDispatchToProps :: "'w jsfun \<Rightarrow> ('w, string \<rightharpoonup> 'w jsfun) js" where
  "defaultMapDispatchToProps dispatch = js_return [''dispatch'' \<mapsto> dispatch]"

text \<open>
  Modelled from the spec: \<^verbatim>\<open>connect\<close> belongs to react-redux and is not among the
  sources. The specification describes its second input as optional and as either an
  action-creator map or a function from the dispatch function to a bound map; both are
  normalised to the contract of \<^verbatim>\<open>bind\<close>, and an omitted input exposes the raw
  dispatch function under the name \<^verbatim>\<open>dispatch\<close>.
\<close>

datatype 'w binding_spec =
    ActionCreatorMap "string \<rightharpoonup> 'w jsfun"
  | BinderFn "'w jsfun \<Rightarrow> ('w, string \<rightharpoonup> 'w jsfun) js"

definition dispatchProps ::
    "'w binding_spec option \<Rightarrow> 'w jsfun \<Rightarrow> ('w, string \<rightharpoonup> 'w jsfun) js" where
  "dispatchProps spec dispatch =
     (case spec of
        None \<Rightarrow> defaultMapDispatchToProps dispatch
      | Some (ActionCreatorMap m) \<Rightarrow> bindActionCreators m dispatch
      | Some (BinderFn f) \<Rightarrow> f dispatch)"

section \<open>Recording stubs\<close>

text \<open>
  To observe which functions a piece of code calls, and with what, the action creators and
  the dispatch function are wrapped in recording stubs: the world is a call log next to
  the store, a stub appends its call to the log and then behaves as the function it
  wraps, which sees and changes the store only.
\<close>

datatype event = CreatorCalled string "jsval list" | DispatchCalled "jsval list"

record 's world =
  calls :: "event list"
  store :: 's

definition recorded :: "(jsval list \<Rightarrow> event) \<Rightarrow> 's jsfun \<Rightarrow> 's world jsfun" where
  "recorded ev f args w =
     (case f args (store w) of (r, s') \<Rightarrow> (r, \<lparr>calls = calls w @ [ev args], store = s'\<rparr>))"

definition recorded_creator :: "string \<Rightarrow> 's jsfun \<Rightarrow> 's world jsfun" where
  "recorded_creator key f = recorded (CreatorCalled key) f"

definition recorded_dispatch :: "'s jsfun \<Rightarrow> 's world jsfun" where
  "recorded_dispatch d = recorded DispatchCalled d"

text \<open>
  \<open>n\<close> successive invocations of the same call, each from its own event: the result
  of one invocation, an exception included, does not stop the next.
\<close>

fun invocations :: "nat \<Rightarrow> ('w, 'a) js \<Rightarrow> 'w \<Rightarrow> 'w" where
  "invocations 0 c w = w"
| "invocations (Suc n) c w = invocations n c (snd (c w))"

text \<open>
  Two dispatch stubs for the examples. The first behaves as a store's own dispatch does,
  returning the action it was given; its store is the number of actions received. The
  second rejects every action by throwing.
\<close>

definition echo_dispatch :: "nat jsfun" where
  "echo_dispatch args n = (Inr (arg 0 args), Suc n)"

definition rejecting_dispatch :: "nat jsfun" where
  "rejecting_dispatch args n = (Inl (Thrown (JStr ''rejected'')), n)"

section \<open>Running the wrapper against recording stubs\<close>

lemma wrapper_returns:
  assumes "f A (store w) = (Inr d, s1)"
  shows "wrapper (recorded_dispatch D) (recorded_creator k f) A w =
           (fst (D [d] s1),
            \<lparr>calls = calls w @ [CreatorCalled k A, DispatchCalled [d]], store = snd (D [d] s1)\<rparr>)"
  using assms
  by (simp add: wrapper_def js_bind_def recorded_creator_def recorded_dispatch_def recorded_def
      split: prod.splits)

lemma wrapper_creator_raises:
  assumes "f A (store w) = (Inl e, s1)"
  shows "wrapper (recorded_dispatch D) (recorded_creator k f) A w =
           (Inl e, \<lparr>calls = calls w @ [CreatorCalled k A], store = s1\<rparr>)"
  using assms
  by (simp add: wrapper_def js_bind_def recorded_creator_def recorded_dispatch_def recorded_def)

lemma wrapper_log:
  "calls (snd (wrapper (recorded_dispatch D) (recorded_creator k f) A w)) =
     calls w @ CreatorCalled k A #
       (case fst (f A (store w)) of Inl e \<Rightarrow> [] | Inr d \<Rightarrow> [DispatchCalled [d]])"
  by (simp add: wrapper_def js_bind_def recorded_creator_def recorded_dispatch_def recorded_def
      split: prod.splits sum.splits)

lemma wrapper_creator_count:
  "count_list (calls (snd (wrapper (recorded_dispatch D) (recorded_creator k f) A w)))
       (CreatorCalled k A) = Suc (count_list (calls w) (CreatorCalled k A))"
  by (simp add: wrapper_log split: sum.splits)

lemma invocations_creator_count:
  "count_list (calls (invocations n (wrapper (recorded_dispatch D) (recorded_creator k f) A) w))
       (CreatorCalled k A) = count_list (calls w) (CreatorCalled k A) + n"
  by (induction n arbitrary: w) (simp_all add: wrapper_creator_count)

lemma incrementCount_returns:
  "incrementCount A s = (Inr (JObj [(''type'', JStr ''count/increment'')]), s)"
  by (simp add: incrementCount_def js_return_def)

lemma addItem_returns:
  "addItem A s = (Inr (JObj [(''type'', JStr ''ADD_ITEM'')]), s)"
  by (simp add: addItem_def js_return_def)

lemma echo_dispatch_returns: "echo_dispatch [d] n = (Inr d, Suc n)"
  by (simp add: echo_dispatch_def arg_def)

section \<open>The binders\<close>

lemma bindActionCreators_result:
  "bindActionCreators M D w = (Inr (\<lambda>key. map_option (wrapper D) (M key)), w)"
  by (simp add: bindActionCreators_def js_return_def)

lemma dom_map_option_comp: "dom (\<lambda>key. map_option g (M key)) = dom M"
  by (auto simp: dom_def)

text \<open>
  The hand-written binder dispatches the same descriptor as the wrapper does when it is
  called without arguments, but it drops whatever arguments it is given and evaluates to
  \<^verbatim>\<open>undefined\<close> instead of the value \<^verbatim>\<open>dispatch\<close> returned.
\<close>

lemma inline_wrapper_discards:
  assumes "mapDispatchToProps_inline (recorded_creator k f) (recorded_dispatch D) w0 = (Inr P, v0)"
    and "f [] (store w) = (Inr d, s1)" and "D [d] s1 = (Inr r, s2)"
  shows "\<exists>g. P ''addItem'' = Some g
           \<and> g A w = (Inr JUndefined,
                \<lparr>calls = calls w @ [CreatorCalled k [], DispatchCalled [d]], store = s2\<rparr>)"
  using assms
  by (auto simp: mapDispatchToProps_inline_def js_return_def js_bind_def recorded_creator_def
      recorded_dispatch_def recorded_def split: prod.splits)

text \<open>
  The intermediate attempt only calls the action creator: nothing reaches
  \<^verbatim>\<open>dispatch\<close>, which is why the lesson moves on to \<^verbatim>\<open>bindActionCreators\<close>.
\<close>

lemma unbound_prop_never_dispatches:
  assumes "mapDispatchToProps_unbound (recorded_creator k f) (recorded_dispatch D) w0 = (Inr P, v0)"
  shows "\<exists>g. P ''addItem'' = Some g
           \<and> calls (snd (g A w)) = calls w @ [CreatorCalled k A]"
  using assms
  by (auto simp: mapDispatchToProps_unbound_def js_return_def recorded_creator_def recorded_def
      split: prod.splits)

text \<open>Reading the items of \<^verbatim>\<open>undefined\<close> or \<^verbatim>\<open>null\<close> is a \<^verbatim>\<open>TypeError\<close>.\<close>

lemma mapStateToProps_nullish:
  "mapStateToProps JUndefined = Inl TypeError" "mapStateToProps JNull = Inl TypeError"
  by (simp_all add: mapStateToProps_def)

section \<open>Claims about the bound wrapper\<close>

text \<open>
  In the claims, \<^verbatim>\<open>bind(M, D)[k]\<close> is the wrapper with \<^verbatim>\<open>dispatch\<close> = \<open>D\<close> and
  \<^verbatim>\<open>actionCreator\<close> = \<open>M[k]\<close>. Calls are observed through the recording stubs
  around an arbitrary action creator \<open>f\<close> and an arbitrary dispatch function \<open>D\<close>.
\<close>

text \<open>
  Claim C1. When the action creator returns a descriptor \<open>d\<close> for the arguments \<open>A\<close>,
  one invocation of the wrapper adds exactly two calls to the log, in this order: the
  action creator with \<open>A\<close>, then dispatch with the single argument \<open>d\<close>. Nothing is
  cached: \<open>n\<close> invocations from any world add \<open>n\<close> calls of the action creator.
\<close>

theorem wrapper_calls_creator_and_dispatch_once:
  assumes "f A (store w) = (Inr d, s1)"
  shows "calls (snd (wrapper (recorded_dispatch D) (recorded_creator k f) A w)) =
           calls w @ [CreatorCalled k A, DispatchCalled [d]]
       \<and> (\<forall>n v. count_list
             (calls (invocations n (wrapper (recorded_dispatch D) (recorded_creator k f) A) v))
             (CreatorCalled k A) = count_list (calls v) (CreatorCalled k A) + n)"
  using assms by (simp add: wrapper_returns invocations_creator_count)

theorem wrapper_calls_creator_and_dispatch_once_witness:
  "incrementCount [] (store \<lparr>calls = [], store = 0::nat\<rparr>) =
       (Inr (JObj [(''type'', JStr ''count/increment'')]), 0)
   \<and> calls (snd (wrapper (recorded_dispatch echo_dispatch)
                   (recorded_creator ''incrementCount'' incrementCount) []
                   \<lparr>calls = [], store = 0\<rparr>)) =
       [CreatorCalled ''incrementCount'' [],
        DispatchCalled [JObj [(''type'', JStr ''count/increment'')]]]
   \<and> count_list (calls (invocations 3 (wrapper (recorded_dispatch echo_dispatch)
                   (recorded_creator ''incrementCount'' incrementCount) [])
                   \<lparr>calls = [], store = 0\<rparr>))
         (CreatorCalled ''incrementCount'' []) = 3"
proof -
  have h: "incrementCount [] (store \<lparr>calls = [], store = 0::nat\<rparr>) =
             (Inr (JObj [(''type'', JStr ''count/increment'')]), 0)"
    by (simp add: incrementCount_returns)
  from wrapper_calls_creator_and_dispatch_once
         [where f = incrementCount and A = "[]" and w = "\<lparr>calls = [], store = 0::nat\<rparr>"
            and D = echo_dispatch and k = "''incrementCount''", OF h]
  show ?thesis using h by simp
qed

text \<open>
  Claim C3. When the action creator returns a descriptor \<open>d\<close> and leaves the world
  \<open>w1\<close>, the wrapper's outcome is the outcome of \<open>dispatch\<close> on \<open>d\<close> in \<open>w1\<close>: the same
  returned value, whatever it is, and the same world. This holds in every world type, for
  every dispatch function.
\<close>

theorem wrapper_returns_what_dispatch_returns:
  assumes "actionCreator A w = (Inr d, w1)"
  shows "wrapper dispatch actionCreator A w = dispatch [d] w1"
  using assms by (simp add: wrapper_def js_bind_def)

theorem wrapper_returns_what_dispatch_returns_witness:
  "addItem [] (0::nat) = (Inr (JObj [(''type'', JStr ''ADD_ITEM'')]), 0)
   \<and> wrapper (\<lambda>args n. (Inr (JStr ''pending''), Suc n)) addItem [] (0::nat) =
       (Inr (JStr ''pending''), 1)"
proof -
  have h: "addItem [] (0::nat) = (Inr (JObj [(''type'', JStr ''ADD_ITEM'')]), 0)"
    by (simp add: addItem_returns)
  from wrapper_returns_what_dispatch_returns
         [where actionCreator = addItem and A = "[]" and w = "0::nat"
            and dispatch = "\<lambda>args n. (Inr (JStr ''pending''), Suc n)", OF h]
  show ?thesis using h by simp
qed

text \<open>
  Claim C4. When the action creator returns \<open>d\<close> and dispatch raises \<open>e\<close> on \<open>d\<close>, the
  wrapper raises \<open>e\<close> itself; the log has grown by one call of the action creator and one
  call of dispatch (no retry), and the store is as dispatch left it.
\<close>

theorem wrapper_dispatch_raises:
  assumes "f A (store w) = (Inr d, s1)" and "D [d] s1 = (Inl e, s2)"
  shows "wrapper (recorded_dispatch D) (recorded_creator k f) A w =
           (Inl e, \<lparr>calls = calls w @ [CreatorCalled k A, DispatchCalled [d]], store = s2\<rparr>)"
  using assms by (simp add: wrapper_returns)

theorem wrapper_dispatch_raises_witness:
  "incrementCount [] (store \<lparr>calls = [], store = 0::nat\<rparr>) =
       (Inr (JObj [(''type'', JStr ''count/increment'')]), 0)
   \<and> rejecting_dispatch [JObj [(''type'', JStr ''count/increment'')]] 0 =
       (Inl (Thrown (JStr ''rejected'')), 0)
   \<and> wrapper (recorded_dispatch rejecting_dispatch)
        (recorded_creator ''incrementCount'' incrementCount) [] \<lparr>calls = [], store = 0\<rparr> =
       (Inl (Thrown (JStr ''rejected'')),
        \<lparr>calls = [CreatorCalled ''incrementCount'' [],
                  DispatchCalled [JObj [(''type'', JStr ''count/increment'')]]],
         store = 0\<rparr>)"
proof -
  have h1: "incrementCount [] (store \<lparr>calls = [], store = 0::nat\<rparr>) =
              (Inr (JObj [(''type'', JStr ''count/increment'')]), 0)"
    by (simp add: incrementCount_returns)
  have h2: "rejecting_dispatch [JObj [(''type'', JStr ''count/increment'')]] 0 =
              (Inl (Thrown (JStr ''rejected'')), 0)"
    by (simp add: rejecting_dispatch_def)
  from wrapper_dispatch_raises
         [where f = incrementCount and A = "[]" and w = "\<lparr>calls = [], store = 0::nat\<rparr>"
            and D = rejecting_dispatch and k = "''incrementCount''", OF h1 h2]
  show ?thesis using h1 h2 by simp
qed

text \<open>
  Claim C9. With the action creator \<^verbatim>\<open>setCount\<close>, the call
  \<^verbatim>\<open>bound.setCount(5)\<close> adds to the log one call of the action creator with the
  argument 5 and one call of the dispatch stub with
  \<^verbatim>\<open>{ type: "SET_COUNT", payload: 5 }\<close>. For any argument list whatever, of any
  length, the action creator receives the list as it is and dispatch receives the
  descriptor built from its first element.
\<close>

theorem setCount_forwards_arguments:
  "calls (snd (wrapper (recorded_dispatch D) (recorded_creator ''setCount'' setCount)
                 [JNum 5] w)) =
     calls w @ [CreatorCalled ''setCount'' [JNum 5],
                DispatchCalled [JObj [(''type'', JStr ''SET_COUNT''), (''payload'', JNum 5)]]]
   \<and> (\<forall>args. calls (snd (wrapper (recorded_dispatch D) (recorded_creator ''setCount'' setCount)
                 args w)) =
     calls w @ [CreatorCalled ''setCount'' args,
                DispatchCalled [JObj [(''type'', JStr ''SET_COUNT''), (''payload'', arg 0 args)]]])"
  by (simp add: wrapper_returns [where ?s1.0 = "store w"] setCount_def js_return_def arg_def)

section \<open>Claims about the binder and the connecting layer\<close>

text \<open>
  Claim C2. Binding returns a map \<open>B\<close> whose keys are exactly the keys of the
  action-creator map \<open>M\<close>, and every key of \<open>M\<close> is mapped to the wrapper closed over
  the dispatch function and the action creator of that key.
\<close>

theorem bind_keeps_keys:
  "\<exists>B. bindActionCreators M D w = (Inr B, w) \<and> dom B = dom M
       \<and> (\<forall>k\<in>dom M. \<exists>ac. M k = Some ac \<and> B k = Some (wrapper D ac))"
  by (auto simp: bindActionCreators_result dom_map_option_comp)

theorem bind_keeps_keys_witness:
  "\<exists>B. mapDispatchToProps addItem echo_dispatch 0 = (Inr B, 0) \<and> dom B = {''addItem''}
       \<and> B ''addItem'' = Some (wrapper echo_dispatch addItem)"
  using bind_keeps_keys [of "[''addItem'' \<mapsto> addItem]" echo_dispatch 0]
  by (auto simp: mapDispatchToProps_def)

text \<open>
  Claim C5. With no second input, the props computed for the component are the single
  field \<^verbatim>\<open>dispatch\<close>, and its value is the dispatch function it was given, not a
  wrapper around it. (Identity of function objects is equality of functions here.)
\<close>

theorem default_exposes_raw_dispatch:
  "\<exists>P. dispatchProps None D w = (Inr P, w) \<and> dom P = {''dispatch''} \<and> P ''dispatch'' = Some D"
  by (simp add: dispatchProps_def defaultMapDispatchToProps_def js_return_def)

text \<open>
  Claim C6. Handing the connecting layer an action-creator map \<open>M\<close> and handing it a
  function that calls \<^verbatim>\<open>bindActionCreators\<close> with \<open>M\<close> and the dispatch function
  are the same computation of props, for every dispatch function: the same keys and, key
  by key, the same wrappers. The \<^verbatim>\<open>mapDispatchToProps\<close> of src/App.js is such a
  function for the map \<^verbatim>\<open>{addItem: addItem}\<close>.
\<close>

theorem direct_map_mode_is_bind:
  "dispatchProps (Some (ActionCreatorMap M)) D =
     dispatchProps (Some (BinderFn (\<lambda>dispatch. bindActionCreators M dispatch))) D
   \<and> dispatchProps (Some (ActionCreatorMap [''addItem'' \<mapsto> a])) D =
     dispatchProps (Some (BinderFn (mapDispatchToProps a))) D"
  by (simp add: dispatchProps_def mapDispatchToProps_def)

text \<open>
  Claim C7. Two constructions from the same action-creator map and dispatch function, made
  in any two worlds, give maps with the keys of the action-creator map whose wrappers
  agree key by key: invoked with the same arguments in the same world they return the
  same result and leave the same world (the same calls, when the functions are recording
  stubs). Whether the two maps hold the same function objects is not observable here.
\<close>

theorem bind_twice_equivalent:
  assumes "bindActionCreators M D w1 = (Inr B1, v1)"
    and "bindActionCreators M D w2 = (Inr B2, v2)"
  shows "dom B1 = dom M \<and> dom B2 = dom M
       \<and> (\<forall>k A w. rel_option (\<lambda>g h. g A w = h A w) (B1 k) (B2 k))"
  using assms
  by (auto simp: bindActionCreators_result dom_map_option_comp option.rel_map
      intro!: option.rel_refl)

theorem bind_twice_equivalent_witness:
  "(\<exists>B1 B2. mapDispatchToProps addItem echo_dispatch 0 = (Inr B1, 0)
      \<and> mapDispatchToProps addItem echo_dispatch 7 = (Inr B2, 7)
      \<and> dom B1 = {''addItem''} \<and> dom B2 = {''addItem''}
      \<and> rel_option (\<lambda>g h. g [] 3 = h [] 3) (B1 ''addItem'') (B2 ''addItem''))"
proof -
  let ?M = "[''addItem'' \<mapsto> (addItem :: nat jsfun)]"
  let ?B = "\<lambda>key. map_option (wrapper echo_dispatch) (?M key)"
  have h1: "bindActionCreators ?M echo_dispatch 0 = (Inr ?B, 0)"
    by (simp add: bindActionCreators_result)
  have h2: "bindActionCreators ?M echo_dispatch 7 = (Inr ?B, 7)"
    by (simp add: bindActionCreators_result)
  from bind_twice_equivalent [where M = ?M and D = echo_dispatch and ?w1.0 = 0 and ?w2.0 = 7
      and ?B1.0 = ?B and ?B2.0 = ?B and ?v1.0 = 0 and ?v2.0 = 7, OF h1 h2]
  have "dom ?B = dom ?M \<and> (\<forall>k A w. rel_option (\<lambda>g h. g A w = h A w) (?B k) (?B k))"
    by simp
  then have "dom ?B = {''addItem''}"
    and "rel_option (\<lambda>g h. g [] (3::nat) = h [] 3) (?B ''addItem'') (?B ''addItem'')"
    by simp_all
  with h1 h2 show ?thesis
    unfolding mapDispatchToProps_def by blast
qed

text \<open>
  Claim C8. Constructing the bound map returns a map and leaves the world as it was; with
  recording stubs the call log is unchanged, so neither dispatch nor an action creator has
  been called. When a wrapper is invoked later and its action creator is free of effects,
  the store afterwards is the store as the one call of dispatch left it.
\<close>

theorem bind_no_effect:
  "snd (bindActionCreators M D w) = w
   \<and> (\<exists>B. fst (bindActionCreators M D w) = Inr B)
   \<and> calls (snd (bindActionCreators (\<lambda>key. map_option (recorded_creator key) (M' key))
                   (recorded_dispatch D') v)) = calls v
   \<and> (f A (store v) = (Inr d, store v) \<longrightarrow>
        store (snd (wrapper (recorded_dispatch D') (recorded_creator k f) A v)) =
          snd (D' [d] (store v)))"
  by (simp add: bindActionCreators_result wrapper_returns)

theorem bind_no_effect_witness:
  "snd (mapDispatchToProps (recorded_creator ''addItem'' addItem)
          (recorded_dispatch echo_dispatch) \<lparr>calls = [], store = 4\<rparr>) = \<lparr>calls = [], store = 4\<rparr>
   \<and> addItem [] (store \<lparr>calls = [], store = 4::nat\<rparr>) =
        (Inr (JObj [(''type'', JStr ''ADD_ITEM'')]), store \<lparr>calls = [], store = 4::nat\<rparr>)
   \<and> store (snd (wrapper (recorded_dispatch echo_dispatch) (recorded_creator ''addItem'' addItem)
                   [] \<lparr>calls = [], store = 4\<rparr>)) = 5"
  using bind_no_effect [where M = "[''addItem'' \<mapsto> recorded_creator ''addItem'' addItem]"
      and D = "recorded_dispatch echo_dispatch" and w = "\<lparr>calls = [], store = 4\<rparr>"
      and M' = "Map.empty" and D' = echo_dispatch and v = "\<lparr>calls = [], store = 4\<rparr>"
      and f = addItem and A = "[]" and d = "JObj [(''type'', JStr ''ADD_ITEM'')]"
      and k = "''addItem''"]
  by (simp add: mapDispatchToProps_def addItem_returns echo_dispatch_returns)

section \<open>Claims about the state selector\<close>

text \<open>
  Claim C10. For every state other than \<^verbatim>\<open>undefined\<close> and \<^verbatim>\<open>null\<close>,
  \<^verbatim>\<open>mapStateToProps\<close> returns an object with the one key \<^verbatim>\<open>items\<close>, whose
  value is what the selector \<^verbatim>\<open>state => state.items\<close> reads; for an object state that
  has the field it is the field's value as it stands; and two object states with the same
  \<^verbatim>\<open>items\<close> give the same result, whatever their other fields are. The function is
  pure: it has no world to change.
\<close>

theorem mapStateToProps_projects_items:
  "(state \<noteq> JUndefined \<and> state \<noteq> JNull \<longrightarrow>
      (\<exists>v. selectItems state = Inr v \<and> mapStateToProps state = Inr (JObj [(''items'', v)])))
   \<and> (map_of fs ''items'' = Some v \<longrightarrow>
        mapStateToProps (JObj fs) = Inr (JObj [(''items'', v)]))
   \<and> (map_of fs ''items'' = map_of fs' ''items'' \<longrightarrow>
        mapStateToProps (JObj fs) = mapStateToProps (JObj fs'))"
  by (cases state) (simp_all add: mapStateToProps_def selectItems_def)

theorem mapStateToProps_projects_items_witness:
  "mapStateToProps (JObj [(''user'', JStr ''ann''), (''items'', JArr [JNum 1, JNum 2])]) =
     Inr (JObj [(''items'', JArr [JNum 1, JNum 2])])
   \<and> mapStateToProps (JObj [(''user'', JStr ''ann''), (''items'', JArr [JNum 1, JNum 2])]) =
     mapStateToProps (JObj [(''items'', JArr [JNum 1, JNum 2]), (''user'', JStr ''bob'')])
   \<and> (\<exists>v. selectItems (JObj [(''user'', JStr ''ann''), (''items'', JArr [JNum 1, JNum 2])]) = Inr v
         \<and> mapStateToProps (JObj [(''user'', JStr ''ann''), (''items'', JArr [JNum 1, JNum 2])]) =
             Inr (JObj [(''items'', v)]))"
  using mapStateToProps_projects_items
      [where state = "JObj [(''user'', JStr ''ann''), (''items'', JArr [JNum 1, JNum 2])]"
         and fs = "[(''user'', JStr ''ann''), (''items'', JArr [JNum 1, JNum 2])]"
         and v = "JArr [JNum 1, JNum 2]"
         and fs' = "[(''items'', JArr [JNum 1, JNum 2]), (''user'', JStr ''bob'')]"]
  by (simp add: mapStateToProps_def selectItems_def)

end
